theory Spec2Isabelle
  imports Complex_Main "HOL-Library.Word" "HOL-Library.Sublist"
begin

unbundle bit_operations_syntax

section \<open>The chat front end of app.py\<close>

text \<open>
  The module validates uploaded files, encodes them as base64 attachments, assembles the
  message list of one request and turns every failure into a line of the chat history.
  Everything the module reads from outside (the file system, the MIME table, the process
  environment, the remote endpoint) is a field of the record \<open>env\<close>; a function that
  touches the outside returns, next to its result, the list of calls it made, in order.
  A raised exception is the \<open>Inl\<close> of a sum. Only subclasses of Python's \<open>Exception\<close>
  are modelled. The calls to the logger change no result and are left out.
\<close>

subsection \<open>Constants\<close>

definition MODEL_NAME :: string where
  "MODEL_NAME = ''claude-3-5-sonnet-20241022''"

definition MAX_TOKENS :: nat where
  "MAX_TOKENS = 8192"

definition MAX_FILE_SIZE_MB :: nat where
  "MAX_FILE_SIZE_MB = 10"

definition ALLOWED_MIME_TYPES :: "string set" where
  "ALLOWED_MIME_TYPES =
     {''text/'', ''image/'', ''application/pdf'',
      ''application/json'', ''application/msword''}"

subsection \<open>Data\<close>

type_synonym byte = "8 word"

text \<open>
  What \<open>e.response.json().get('error', {}).get('message', 'Unknown error')\<close> finds in
  the body of a status error: the body cannot be read (the expression itself raises, with
  the given text), it has no message, or it has one.
\<close>

datatype error_body = BodyUnreadable string | BodyNoMessage | BodyMessage string

text \<open>
  Exceptions, each with the text of its first argument. \<open>GrError\<close> is \<open>gr.Error\<close>;
  the three API classes are those the module imports from the client library, each value
  standing for the most specific class of the exception (a rate limit error is also a status
  error in the library, and the module tests for it first).
\<close>

datatype exn =
    ValueError string
  | AttributeError string
  | IndexError string
  | OSError string
  | GrError string
  | APIConnectionError string
  | RateLimitError string
  | APIStatusError string error_body
  | OtherException string

record gr_file =
  name :: string

record attachment =
  type :: string
  media_type :: string
  data :: string

record message =
  role :: string
  content :: string
  attachments :: "attachment list option"

record request =
  model :: string
  max_tokens :: nat
  temperature :: real
  messages :: "message list"
  timeout :: nat

datatype client = Client string

text \<open>
  The outside world. \<open>getsize\<close> is \<open>os.path.getsize\<close>, \<open>guess_type\<close> the first
  component of \<open>mimetypes.guess_type\<close> (a function of the name alone), \<open>read_file\<close>
  opening the file in binary mode and reading all of it, \<open>getenv\<close> is \<open>os.getenv\<close>,
  \<open>Anthropic\<close> the constructor of the client, \<open>messages_create\<close> the remote call
  with the texts of the content blocks of its response as result. \<open>gr_error_str\<close> is
  what \<open>str\<close> makes of a \<open>gr.Error\<close> built from a message: the class belongs to
  Gradio, not to this module, so its rendering is a parameter. Gradio's \<open>Error.__str__\<close>
  returns \<open>repr(self.message)\<close>, which is \<open>py_repr\<close> below.
\<close>

record env =
  getsize :: "string \<Rightarrow> exn + nat"
  guess_type :: "string \<Rightarrow> string option"
  read_file :: "string \<Rightarrow> exn + byte list"
  getenv :: "string \<Rightarrow> string option"
  Anthropic :: "string \<Rightarrow> exn + client"
  messages_create :: "client \<Rightarrow> request \<Rightarrow> exn + string list"
  gr_error_str :: "string \<Rightarrow> string"

datatype event =
    Getsize string
  | GuessType string
  | OpenRead string
  | Getenv string
  | NewClient string
  | MessagesCreate client request

fun exn_str :: "env \<Rightarrow> exn \<Rightarrow> string" where
  "exn_str env (ValueError s) = s"
| "exn_str env (AttributeError s) = s"
| "exn_str env (IndexError s) = s"
| "exn_str env (OSError s) = s"
| "exn_str env (GrError s) = gr_error_str env s"
| "exn_str env (APIConnectionError s) = s"
| "exn_str env (RateLimitError s) = s"
| "exn_str env (APIStatusError s body) = s"
| "exn_str env (OtherException s) = s"

subsection \<open>base64.b64encode and base64.b64decode\<close>

text \<open>
  The standard alphabet with padding (RFC 4648), three bytes to four characters. The
  decoder is the strict one: it accepts whole groups of four characters of the alphabet,
  with padding in the last group only.
\<close>

definition b64_alphabet :: string where
  "b64_alphabet = ''ABCDEFGHIJKLMNOPQRSTUVWXYZabcdefghijklmnopqrstuvwxyz0123456789+/''"

definition b64_char :: "byte \<Rightarrow> char" where
  "b64_char v = b64_alphabet ! unat v"

definition b64_value :: "char \<Rightarrow> byte option" where
  "b64_value c = map_option of_nat (map_of (zip b64_alphabet [0..<64]) c)"

fun b64encode :: "byte list \<Rightarrow> string" where
  "b64encode [] = []"
| "b64encode [a] =
     [b64_char (drop_bit 2 a AND mask 6),
      b64_char (push_bit 4 a AND mask 6),
      CHR ''='', CHR ''='']"
| "b64encode [a, b] =
     [b64_char (drop_bit 2 a AND mask 6),
      b64_char ((push_bit 4 a OR drop_bit 4 b) AND mask 6),
      b64_char (push_bit 2 b AND mask 6),
      CHR ''='']"
| "b64encode (a # b # c # rest) =
     [b64_char (drop_bit 2 a AND mask 6),
      b64_char ((push_bit 4 a OR drop_bit 4 b) AND mask 6),
      b64_char ((push_bit 2 b OR drop_bit 6 c) AND mask 6),
      b64_char (c AND mask 6)] @ b64encode rest"

fun b64decode :: "string \<Rightarrow> byte list option" where
  "b64decode [] = Some []"
| "b64decode (c0 # c1 # c2 # c3 # rest) =
     (if c3 = CHR ''='' then
        (if rest \<noteq> [] then None
         else if c2 = CHR ''='' then
           (case (b64_value c0, b64_value c1) of
              (Some v0, Some v1) \<Rightarrow> Some [push_bit 2 v0 OR drop_bit 4 v1]
            | _ \<Rightarrow> None)
         else
           (case (b64_value c0, b64_value c1, b64_value c2) of
              (Some v0, Some v1, Some v2) \<Rightarrow>
                Some [push_bit 2 v0 OR drop_bit 4 v1, push_bit 4 v1 OR drop_bit 2 v2]
            | _ \<Rightarrow> None))
      else
        (case (b64_value c0, b64_value c1, b64_value c2, b64_value c3) of
           (Some v0, Some v1, Some v2, Some v3) \<Rightarrow>
             (case b64decode rest of
                None \<Rightarrow> None
              | Some bs \<Rightarrow>
                  Some ((push_bit 2 v0 OR drop_bit 4 v1) #
                        (push_bit 4 v1 OR drop_bit 2 v2) #
                        (push_bit 6 v2 OR v3) # bs))
         | _ \<Rightarrow> None))"
| "b64decode _ = None"

subsection \<open>validate_file\<close>

text \<open>
  \<open>file_size\<close> is the quotient of the size in bytes by \<open>1024 * 1024\<close>; the divisor is
  a power of two, so the float the source computes compares with 10 as the exact quotient
  does. When \<open>guess_type\<close> finds no type, \<open>mime_type\<close> is \<open>None\<close> and the call of
  \<open>mime_type.startswith\<close> raises \<open>AttributeError\<close>.
\<close>

definition none_startswith :: string where
  "none_startswith =
     [CHR 0x27] @ ''NoneType'' @ [CHR 0x27] @ '' object has no attribute '' @
     [CHR 0x27] @ ''startswith'' @ [CHR 0x27]"

definition validate_file :: "env \<Rightarrow> string \<Rightarrow> (exn + unit) \<times> event list" where
  "validate_file env file_path =
     (case getsize env file_path of
        Inl e \<Rightarrow> (Inl e, [Getsize file_path])
      | Inr n_bytes \<Rightarrow>
          (let file_size = real n_bytes / (1024 * 1024) in
           if file_size > real MAX_FILE_SIZE_MB
           then (Inl (ValueError ''File size exceeds 10MB limit''), [Getsize file_path])
           else
             (case guess_type env file_path of
                None \<Rightarrow>
                  (Inl (AttributeError none_startswith),
                   [Getsize file_path, GuessType file_path])
              | Some mime_type \<Rightarrow>
                  if \<not> (\<exists>allowed \<in> ALLOWED_MIME_TYPES. prefix allowed mime_type)
                  then (Inl (ValueError (''Unsupported file type: '' @ mime_type)),
                        [Getsize file_path, GuessType file_path])
                  else (Inr (), [Getsize file_path, GuessType file_path]))))"

subsection \<open>process_attachments\<close>

text \<open>
  \<open>process_file\<close> is the body of the loop: the \<open>try\<close> block for one file, with its
  \<open>except Exception\<close> clause that raises \<open>gr.Error\<close> in place of whatever was
  raised. \<open>mime_type or "application/octet-stream"\<close> takes the fallback for \<open>None\<close>
  and for the empty string. The list \<open>attachments\<close> of the source is \<open>collected\<close> here.
\<close>

definition process_file :: "env \<Rightarrow> gr_file \<Rightarrow> (exn + attachment) \<times> event list" where
  "process_file env file =
     (case validate_file env (name file) of
        (Inl e, t) \<Rightarrow> (Inl (GrError (''File error: '' @ exn_str env e)), t)
      | (Inr _, t) \<Rightarrow>
          (let mime_type = guess_type env (name file);
               t' = t @ [GuessType (name file), OpenRead (name file)] in
           case read_file env (name file) of
             Inl e \<Rightarrow> (Inl (GrError (''File error: '' @ exn_str env e)), t')
           | Inr file_data \<Rightarrow>
               (Inr \<lparr>type = ''base64'',
                     media_type =
                       (case mime_type of
                          None \<Rightarrow> ''application/octet-stream''
                        | Some m \<Rightarrow> if m = [] then ''application/octet-stream'' else m),
                     data = b64encode file_data\<rparr>,
                t')))"

fun process_attachments_loop ::
  "env \<Rightarrow> gr_file list \<Rightarrow> attachment list \<Rightarrow> event list \<Rightarrow>
   (exn + attachment list) \<times> event list" where
  "process_attachments_loop env [] collected tr = (Inr collected, tr)"
| "process_attachments_loop env (file # files) collected tr =
     (case process_file env file of
        (Inl e, t) \<Rightarrow> (Inl e, tr @ t)
      | (Inr a, t) \<Rightarrow> process_attachments_loop env files (collected @ [a]) (tr @ t))"

definition process_attachments ::
  "env \<Rightarrow> gr_file list \<Rightarrow> (exn + attachment list) \<times> event list" where
  "process_attachments env files = process_attachments_loop env files [] []"

subsection \<open>chat_with_claude\<close>

text \<open>
  \<open>except_clauses\<close> gives the exception that leaves \<open>chat_with_claude\<close> when its
  \<open>try\<close> block raises \<open>e\<close>: the four \<open>except\<close> clauses, in their order. The clause
  for a status error reads the body of the response, which can raise in its turn.
  \<open>build_messages\<close> is the list built inside the \<open>try\<close> block: the new message,
  then the loop over the history extending it; the guard \<open>if history\<close> only skips a
  loop that would not run.
\<close>

definition except_clauses :: "env \<Rightarrow> exn \<Rightarrow> exn" where
  "except_clauses env e =
     (case e of
        APIConnectionError _ \<Rightarrow>
          GrError ''Connection error: Please check your internet connection''
      | RateLimitError _ \<Rightarrow>
          GrError ''Rate limit exceeded: Please wait before sending new messages''
      | APIStatusError _ body \<Rightarrow>
          (case body of
             BodyUnreadable s \<Rightarrow> OtherException s
           | BodyNoMessage \<Rightarrow> GrError ''API error: Unknown error''
           | BodyMessage m \<Rightarrow> GrError (''API error: '' @ m))
      | _ \<Rightarrow> GrError (''Unexpected error: '' @ exn_str env e))"

definition build_messages ::
  "string \<Rightarrow> (string \<times> string) list \<Rightarrow> attachment list \<Rightarrow> message list" where
  "build_messages msg history atts =
     foldl (\<lambda>msgs (user_msg, bot_msg).
              msgs @
              [\<lparr>role = ''user'', content = user_msg, attachments = None\<rparr>,
               \<lparr>role = ''assistant'', content = bot_msg, attachments = None\<rparr>])
           [\<lparr>role = ''user'', content = msg, attachments = Some atts\<rparr>]
           history"

definition chat_with_claude ::
  "env \<Rightarrow> string \<Rightarrow> (string \<times> string) list \<Rightarrow> gr_file list \<Rightarrow>
   (exn + string) \<times> event list" where
  "chat_with_claude env msg history files =
     (let api_key = getenv env ''ANTHROPIC_API_KEY'';
          t0 = [Getenv ''ANTHROPIC_API_KEY''] in
      case api_key of
        None \<Rightarrow> (Inl (GrError ''Configuration error: API key missing''), t0)
      | Some key \<Rightarrow>
          if key = [] then (Inl (GrError ''Configuration error: API key missing''), t0)
          else
            (case Anthropic env key of
               Inl e \<Rightarrow> (Inl (except_clauses env e), t0 @ [NewClient key])
             | Inr cl \<Rightarrow>
                 (case process_attachments env files of
                    (Inl e, t1) \<Rightarrow> (Inl (except_clauses env e), t0 @ [NewClient key] @ t1)
                  | (Inr atts, t1) \<Rightarrow>
                      (let rq = \<lparr>model = MODEL_NAME, max_tokens = MAX_TOKENS,
                                 temperature = 0,
                                 messages = build_messages msg history atts,
                                 timeout = 30\<rparr>;
                           t2 = t0 @ [NewClient key] @ t1 @ [MessagesCreate cl rq] in
                       case messages_create env cl rq of
                         Inl e \<Rightarrow> (Inl (except_clauses env e), t2)
                       | Inr response \<Rightarrow>
                           (case response of
                              [] \<Rightarrow>
                                (Inl (except_clauses env
                                        (IndexError ''list index out of range'')), t2)
                            | block # _ \<Rightarrow> (Inr block, t2))))))"

subsection \<open>handle_chat\<close>

text \<open>
  The handler returns the new history and the cleared file list. Its \<open>except Exception\<close>
  clause catches whatever \<open>chat_with_claude\<close> raises, so every branch is a return.
\<close>

definition handle_chat ::
  "env \<Rightarrow> string \<Rightarrow> (string \<times> string) list \<Rightarrow> gr_file list \<Rightarrow>
   (exn + (string \<times> string) list \<times> gr_file list) \<times> event list" where
  "handle_chat env msg history files =
     (case chat_with_claude env msg history files of
        (Inr response, t) \<Rightarrow> (Inr (history @ [(msg, response)], []), t)
      | (Inl e, t) \<Rightarrow> (Inr (history @ [(msg, ''Error: '' @ exn_str env e)], []), t))"

subsection \<open>repr of a string\<close>

text \<open>
  Python's \<open>repr\<close> of a \<open>str\<close>: the text between single quotes, or between double
  quotes when it holds a single quote and no double quote; the quote in use and the
  backslash are escaped with a backslash, tab, newline and carriage return are written
  \<open>\t\<close>, \<open>\n\<close>, \<open>\r\<close>, the other control characters and DEL as \<open>\xhh\<close>. A \<open>char\<close>
  is a byte here; bytes from 128 on stand for the UTF-8 encoding of printable characters
  and pass unchanged.
\<close>

definition hex_digit :: "nat \<Rightarrow> char" where
  "hex_digit n = ''0123456789abcdef'' ! n"

definition repr_char :: "char \<Rightarrow> char \<Rightarrow> string" where
  "repr_char quote c =
     (if c = quote \<or> c = CHR 0x5C then [CHR 0x5C, c]
      else if c = CHR 0x09 then [CHR 0x5C, CHR ''t'']
      else if c = CHR 0x0A then [CHR 0x5C, CHR ''n'']
      else if c = CHR 0x0D then [CHR 0x5C, CHR ''r'']
      else if (of_char c :: nat) < 32 \<or> c = CHR 0x7F
        then [CHR 0x5C, CHR ''x'', hex_digit (of_char c div 16), hex_digit (of_char c mod 16)]
      else [c])"

definition py_repr :: "string \<Rightarrow> string" where
  "py_repr s =
     (let quote = (if CHR 0x27 \<in> set s \<and> CHR 0x22 \<notin> set s then CHR 0x22 else CHR 0x27)
      in [quote] @ concat (map (repr_char quote) s) @ [quote])"

subsection \<open>A concrete environment\<close>

text \<open>
  Five files and a remote that always answers. \<open>notes.txt\<close> is four bytes of text,
  \<open>exact.txt\<close> is exactly 10 MB, \<open>big.txt\<close> one byte more, \<open>README\<close> has no
  extension and hence no MIME type, \<open>tool.exe\<close> has a type outside the allow-set. Any
  other name does not exist. A \<open>gr.Error\<close> is rendered as Gradio renders it.
\<close>

definition demo_env :: env where
  "demo_env =
     \<lparr>getsize = (\<lambda>p. if p = ''notes.txt'' then Inr 4
                     else if p = ''big.txt'' then Inr (10 * 1024 * 1024 + 1)
                     else if p = ''exact.txt'' then Inr (10 * 1024 * 1024)
                     else if p = ''README'' then Inr 4
                     else if p = ''tool.exe'' then Inr 4
                     else Inl (OSError ''No such file or directory'')),
      guess_type = (\<lambda>p. if p = ''notes.txt'' \<or> p = ''big.txt'' \<or> p = ''exact.txt''
                        then Some ''text/plain''
                        else if p = ''tool.exe'' then Some ''application/x-msdownload''
                        else None),
      read_file = (\<lambda>p. if p = ''notes.txt'' then Inr [0x4d, 0x61, 0x6e, 0x21]
                       else Inl (OSError ''No such file or directory'')),
      getenv = (\<lambda>v. if v = ''ANTHROPIC_API_KEY'' then Some ''sk-test'' else None),
      Anthropic = (\<lambda>key. Inr (Client key)),
      messages_create = (\<lambda>cl rq. Inr [''Hi there'']),
      gr_error_str = py_repr\<rparr>"


section \<open>Properties\<close>

subsection \<open>base64: decoding undoes encoding\<close>

lemma b64_alphabet_distinct: "distinct b64_alphabet"
  unfolding b64_alphabet_def by simp

lemma b64_alphabet_length: "length b64_alphabet = 64"
  unfolding b64_alphabet_def by simp

lemma sextet_bound: "unat ((w :: byte) AND mask 6) < 64"
  using and_mask_less_size [of 6 w] by (simp add: word_less_nat_alt word_size)

lemma b64_value_char: "unat v < 64 \<Longrightarrow> b64_value (b64_char v) = Some v"
  unfolding b64_value_def b64_char_def
  using map_of_zip_nth [of b64_alphabet "[0..<64]" "unat v"]
  by (simp add: b64_alphabet_distinct b64_alphabet_length)

lemma b64_char_not_pad: "unat v < 64 \<Longrightarrow> b64_char v \<noteq> CHR ''=''"
proof -
  assume "unat v < 64"
  then have "b64_char v \<in> set b64_alphabet"
    unfolding b64_char_def by (simp add: b64_alphabet_length)
  moreover have "CHR ''='' \<notin> set b64_alphabet"
    unfolding b64_alphabet_def by simp
  ultimately show ?thesis by auto
qed

lemma first_byte_back:
  "push_bit 2 (drop_bit 2 a AND mask 6) OR
   drop_bit 4 ((push_bit 4 a OR drop_bit 4 b) AND mask 6) = (a :: byte)"
proof (rule bit_word_eqI)
  fix n :: nat
  assume n: "n < LENGTH(8)"
  have *: "2 \<le> n \<Longrightarrow> Suc (Suc (n - 2)) = n" by simp
  show "bit (push_bit 2 (drop_bit 2 a AND mask 6) OR
             drop_bit 4 ((push_bit 4 a OR drop_bit 4 b) AND mask 6)) n = bit a n"
    using n by (cases "2 \<le> n") (auto simp: bit_simps *)
qed

lemma second_byte_back:
  "push_bit 4 ((push_bit 4 a OR drop_bit 4 b) AND mask 6) OR
   drop_bit 2 ((push_bit 2 b OR drop_bit 6 c) AND mask 6) = (b :: byte)"
proof (rule bit_word_eqI)
  fix n :: nat
  assume n: "n < LENGTH(8)"
  have *: "4 \<le> n \<Longrightarrow> 4 + (n - 4) = n" by simp
  show "bit (push_bit 4 ((push_bit 4 a OR drop_bit 4 b) AND mask 6) OR
             drop_bit 2 ((push_bit 2 b OR drop_bit 6 c) AND mask 6)) n = bit b n"
    using n by (cases "4 \<le> n") (auto simp: bit_simps *)
qed

lemma third_byte_back:
  "push_bit 6 ((push_bit 2 b OR drop_bit 6 c) AND mask 6) OR (c AND mask 6) = (c :: byte)"
  by (rule bit_word_eqI) (auto simp: bit_simps)

lemma b64_roundtrip: "b64decode (b64encode bs) = Some bs"
proof (induction bs rule: b64encode.induct)
  case 1
  show ?case by simp
next
  case (2 a)
  show ?case
    using first_byte_back [of a 0]
    by (simp add: b64_value_char sextet_bound b64_char_not_pad)
next
  case (3 a b)
  show ?case
    using first_byte_back [of a b] second_byte_back [of a b 0]
    by (simp add: b64_value_char sextet_bound b64_char_not_pad)
next
  case (4 a b c rest)
  then show ?case
    using first_byte_back [of a b] second_byte_back [of a b c] third_byte_back [of b c]
    by (simp add: b64_value_char sextet_bound b64_char_not_pad)
qed

lemma b64encode_demo: "b64encode [0x4d, 0x61, 0x6e, 0x21] = ''TWFuIQ==''"
  by code_simp

subsection \<open>The size check\<close>

text \<open>
  C3, as stated: every file whose size is at or above the threshold of 10 MB is refused by
  \<open>validate_file\<close>. The comparison of the source is strict, so a text file of exactly
  10 MB, the threshold itself, passes.
\<close>

theorem validate_file_accepts_threshold:
  "getsize demo_env ''exact.txt'' = Inr (MAX_FILE_SIZE_MB * 1024 * 1024) \<and>
   fst (validate_file demo_env ''exact.txt'') = Inr ()"
  by (simp add: demo_env_def validate_file_def MAX_FILE_SIZE_MB_def ALLOWED_MIME_TYPES_def)

text \<open>
  C3, amended: every file whose size is strictly above the threshold of 10 MB
  (\<open>10 * 1024 * 1024\<close> bytes) makes \<open>validate_file\<close> raise \<open>ValueError\<close>, whatever its
  MIME type; the type is not even looked up.
\<close>

theorem validate_file_rejects_oversized:
  "getsize env file_path = Inr n \<Longrightarrow> n > MAX_FILE_SIZE_MB * 1024 * 1024 \<Longrightarrow>
   validate_file env file_path =
     (Inl (ValueError ''File size exceeds 10MB limit''), [Getsize file_path])"
  by (simp add: validate_file_def MAX_FILE_SIZE_MB_def)

theorem validate_file_rejects_oversized_witness:
  "getsize demo_env ''big.txt'' = Inr 10485761 \<and>
   10485761 > MAX_FILE_SIZE_MB * 1024 * 1024 \<and>
   validate_file demo_env ''big.txt'' =
     (Inl (ValueError ''File size exceeds 10MB limit''), [Getsize ''big.txt''])"
proof -
  have sz: "getsize demo_env ''big.txt'' = Inr 10485761"
    by (simp add: demo_env_def)
  have gt: "10485761 > MAX_FILE_SIZE_MB * 1024 * 1024"
    by (simp add: MAX_FILE_SIZE_MB_def)
  show ?thesis
    using sz gt validate_file_rejects_oversized [OF sz gt] by simp
qed

subsection \<open>The type check\<close>

lemma validate_file_passes:
  assumes "getsize env p = Inr n" and "n \<le> MAX_FILE_SIZE_MB * 1024 * 1024"
    and "guess_type env p = Some m"
    and "\<exists>allowed \<in> ALLOWED_MIME_TYPES. prefix allowed m"
  shows "validate_file env p = (Inr (), [Getsize p, GuessType p])"
  using assms by (simp add: validate_file_def MAX_FILE_SIZE_MB_def)

lemma validate_file_rejects_unlisted:
  assumes "getsize env p = Inr n" and "n \<le> MAX_FILE_SIZE_MB * 1024 * 1024"
    and "guess_type env p = Some m"
    and "\<not> (\<exists>allowed \<in> ALLOWED_MIME_TYPES. prefix allowed m)"
  shows "validate_file env p =
           (Inl (ValueError (''Unsupported file type: '' @ m)), [Getsize p, GuessType p])"
  using assms by (simp add: validate_file_def MAX_FILE_SIZE_MB_def)

lemma allowed_prefix_nonempty:
  "\<exists>allowed \<in> ALLOWED_MIME_TYPES. prefix allowed m \<Longrightarrow> m \<noteq> []"
  by (auto simp: ALLOWED_MIME_TYPES_def)

lemma octet_stream_not_allowed:
  "\<not> (\<exists>allowed \<in> ALLOWED_MIME_TYPES. prefix allowed ''application/octet-stream'')"
  by (simp add: ALLOWED_MIME_TYPES_def)

lemma validate_file_no_create:
  "MessagesCreate cl rq \<notin> set (snd (validate_file env p))"
  by (simp add: validate_file_def Let_def split: sum.splits option.splits)

text \<open>
  C4: a file under the size threshold whose MIME type cannot be resolved or has no prefix
  in the allow-set is refused with a validation error (\<open>ValueError\<close>). For a resolved
  type outside the allow-set that is what happens (lemma above). For an unresolved type the
  source calls \<open>startswith\<close> on \<open>None\<close>: \<open>README\<close>, four bytes and no extension,
  makes \<open>validate_file\<close> raise \<open>AttributeError\<close>, not \<open>ValueError\<close>.
\<close>

theorem validate_file_unresolved_type:
  "getsize demo_env ''README'' = Inr 4 \<and> guess_type demo_env ''README'' = None \<and>
   validate_file demo_env ''README'' =
     (Inl (AttributeError none_startswith), [Getsize ''README'', GuessType ''README''])"
  by (simp add: validate_file_def demo_env_def MAX_FILE_SIZE_MB_def)

subsection \<open>The loop over the files\<close>

lemma process_file_no_create:
  "MessagesCreate cl rq \<notin> set (snd (process_file env f))"
  using validate_file_no_create [of cl rq env "name f"]
  by (auto simp: process_file_def Let_def split: prod.splits sum.splits)

lemma process_file_invalid:
  "fst (validate_file env (name f)) = Inl e \<Longrightarrow>
   process_file env f =
     (Inl (GrError (''File error: '' @ exn_str env e)), snd (validate_file env (name f)))"
  by (cases "validate_file env (name f)") (simp add: process_file_def)

lemma process_file_passes:
  assumes "getsize env (name f) = Inr n" and "n \<le> MAX_FILE_SIZE_MB * 1024 * 1024"
    and "guess_type env (name f) = Some m"
    and "\<exists>allowed \<in> ALLOWED_MIME_TYPES. prefix allowed m"
    and "read_file env (name f) = Inr bytes"
  shows "fst (process_file env f) =
           Inr \<lparr>type = ''base64'', media_type = m, data = b64encode bytes\<rparr>"
proof -
  have "m \<noteq> []" using assms(4) by (rule allowed_prefix_nonempty)
  then show ?thesis
    using validate_file_passes [OF assms(1-4)] assms(3,5)
    by (simp add: process_file_def)
qed

lemma process_file_media_type:
  assumes "fst (process_file env f) = Inr a"
  shows "guess_type env (name f) = Some (media_type a) \<and>
         (\<exists>allowed \<in> ALLOWED_MIME_TYPES. prefix allowed (media_type a))"
proof -
  obtain res t where v: "validate_file env (name f) = (res, t)"
    by (cases "validate_file env (name f)")
  with assms obtain u where res: "res = Inr u"
    by (cases res) (simp_all add: process_file_def)
  from v res obtain m where m: "guess_type env (name f) = Some m"
      "\<exists>allowed \<in> ALLOWED_MIME_TYPES. prefix allowed m"
    by (auto simp: validate_file_def Let_def split: sum.splits option.splits if_splits)
  from m(2) have ne: "m \<noteq> []" by (rule allowed_prefix_nonempty)
  from assms v res m(1) ne have "media_type a = m"
    by (auto simp: process_file_def Let_def split: sum.splits)
  with m show ?thesis by simp
qed

lemma loop_passes_prefix:
  "\<forall>f \<in> set pre. \<exists>a. fst (process_file env f) = Inr a \<Longrightarrow>
   \<exists>collected'. process_attachments_loop env (pre @ rest) collected tr =
     process_attachments_loop env rest collected'
       (tr @ concat (map (\<lambda>f. snd (process_file env f)) pre))"
proof (induction pre arbitrary: collected tr)
  case Nil
  show ?case by auto
next
  case (Cons f pre)
  from Cons.prems obtain a where a: "fst (process_file env f) = Inr a" by auto
  then have pf: "process_file env f = (Inr a, snd (process_file env f))"
    by (cases "process_file env f") simp
  from Cons.prems have "\<forall>f \<in> set pre. \<exists>a. fst (process_file env f) = Inr a" by simp
  from Cons.IH [OF this, of "collected @ [a]" "tr @ snd (process_file env f)"]
  obtain c' where
    "process_attachments_loop env (pre @ rest) (collected @ [a]) (tr @ snd (process_file env f)) =
     process_attachments_loop env rest c'
       ((tr @ snd (process_file env f)) @ concat (map (\<lambda>f. snd (process_file env f)) pre))"
    by blast
  then show ?case
    using pf by (cases "process_file env f") auto
qed

lemma loop_succeeds:
  "process_attachments_loop env files collected tr = (Inr r, t) \<Longrightarrow>
   \<exists>atts. r = collected @ atts \<and>
          list_all2 (\<lambda>f a. fst (process_file env f) = Inr a) files atts"
proof (induction files arbitrary: collected tr)
  case Nil
  then show ?case by simp
next
  case (Cons f files)
  show ?case
  proof (cases "process_file env f")
    case (Pair res t1)
    show ?thesis
    proof (cases res)
      case (Inl e)
      with Pair Cons.prems show ?thesis by simp
    next
      case (Inr a)
      with Pair Cons.prems have
        "process_attachments_loop env files (collected @ [a]) (tr @ t1) = (Inr r, t)"
        by simp
      from Cons.IH [OF this] obtain atts where
        "r = (collected @ [a]) @ atts"
        "list_all2 (\<lambda>f a. fst (process_file env f) = Inr a) files atts"
        by blast
      then have "r = collected @ (a # atts) \<and>
          list_all2 (\<lambda>f a. fst (process_file env f) = Inr a) (f # files) (a # atts)"
        using Pair Inr by simp
      then show ?thesis by blast
    qed
  qed
qed

lemma loop_all_pass:
  "\<forall>f \<in> set files. \<exists>a. fst (process_file env f) = Inr a \<Longrightarrow>
   \<exists>r t. process_attachments_loop env files collected tr = (Inr r, t)"
proof (induction files arbitrary: collected tr)
  case Nil
  show ?case by simp
next
  case (Cons f files)
  from Cons.prems obtain a where a: "fst (process_file env f) = Inr a" by auto
  from Cons.prems have "\<forall>f \<in> set files. \<exists>a. fst (process_file env f) = Inr a" by simp
  from Cons.IH [OF this, of "collected @ [a]" "tr @ snd (process_file env f)"]
  show ?case using a by (cases "process_file env f") auto
qed

lemma process_attachments_succeeds:
  "fst (process_attachments env files) = Inr atts \<Longrightarrow>
   list_all2 (\<lambda>f a. fst (process_file env f) = Inr a) files atts"
proof -
  assume h: "fst (process_attachments env files) = Inr atts"
  then have "process_attachments_loop env files [] [] = (Inr atts, snd (process_attachments env files))"
    by (cases "process_attachments env files") (simp add: process_attachments_def)
  from loop_succeeds [OF this] show ?thesis by simp
qed

lemma process_attachments_stops:
  assumes pre: "\<forall>f \<in> set pre. \<exists>a. fst (process_file env f) = Inr a"
    and bad: "fst (validate_file env (name bad)) = Inl e"
  shows "process_attachments env (pre @ bad # post) =
           (Inl (GrError (''File error: '' @ exn_str env e)),
            concat (map (\<lambda>f. snd (process_file env f)) pre) @
            snd (validate_file env (name bad)))"
proof -
  from loop_passes_prefix [OF pre, of "bad # post" "[]" "[]"] obtain collected' where
    "process_attachments_loop env (pre @ bad # post) [] [] =
     process_attachments_loop env (bad # post) collected'
       (concat (map (\<lambda>f. snd (process_file env f)) pre))"
    by auto
  then show ?thesis
    by (simp add: process_attachments_def process_file_invalid [OF bad])
qed

lemma demo_pass_notes: "fst (process_file demo_env \<lparr>name = ''notes.txt''\<rparr>) =
    Inr \<lparr>type = ''base64'', media_type = ''text/plain'', data = ''TWFuIQ==''\<rparr>"
  by (simp add: process_file_def validate_file_def demo_env_def
      MAX_FILE_SIZE_MB_def ALLOWED_MIME_TYPES_def b64encode_demo del: b64encode.simps)

lemma demo_trace_notes: "snd (process_file demo_env \<lparr>name = ''notes.txt''\<rparr>) =
    [Getsize ''notes.txt'', GuessType ''notes.txt'', GuessType ''notes.txt'',
     OpenRead ''notes.txt'']"
  by (simp add: process_file_def validate_file_def demo_env_def
      MAX_FILE_SIZE_MB_def ALLOWED_MIME_TYPES_def del: b64encode.simps)

lemma demo_big: "validate_file demo_env ''big.txt'' =
    (Inl (ValueError ''File size exceeds 10MB limit''), [Getsize ''big.txt''])"
  by (simp add: validate_file_def demo_env_def MAX_FILE_SIZE_MB_def)

lemma demo_notes:
  "process_attachments demo_env [\<lparr>name = ''notes.txt''\<rparr>] =
   (Inr [\<lparr>type = ''base64'', media_type = ''text/plain'', data = ''TWFuIQ==''\<rparr>],
    [Getsize ''notes.txt'', GuessType ''notes.txt'', GuessType ''notes.txt'',
     OpenRead ''notes.txt''])"
  by (simp add: process_attachments_def process_file_def validate_file_def demo_env_def
      MAX_FILE_SIZE_MB_def ALLOWED_MIME_TYPES_def b64encode_demo del: b64encode.simps)

text \<open>
  C10: whenever \<open>process_attachments\<close> succeeds, the \<open>media_type\<close> of each attachment
  is the MIME type that was resolved for the file of the same position, it has a prefix in
  the allow-set, and it is not the fallback \<open>application/octet-stream\<close>: after a passed
  validation the fallback branch is never taken.
\<close>

theorem process_attachments_media_type_allowed:
  "fst (process_attachments env files) = Inr atts \<Longrightarrow>
   list_all2 (\<lambda>f a. guess_type env (name f) = Some (media_type a) \<and>
                    (\<exists>allowed \<in> ALLOWED_MIME_TYPES. prefix allowed (media_type a)) \<and>
                    media_type a \<noteq> ''application/octet-stream'')
             files atts"
proof -
  assume "fst (process_attachments env files) = Inr atts"
  then have "list_all2 (\<lambda>f a. fst (process_file env f) = Inr a) files atts"
    by (rule process_attachments_succeeds)
  then show ?thesis
  proof (rule list_all2_mono)
    fix f a
    assume "fst (process_file env f) = Inr a"
    then have *: "guess_type env (name f) = Some (media_type a) \<and>
         (\<exists>allowed \<in> ALLOWED_MIME_TYPES. prefix allowed (media_type a))"
      by (rule process_file_media_type)
    then have "media_type a \<noteq> ''application/octet-stream''"
      using octet_stream_not_allowed by metis
    with * show "guess_type env (name f) = Some (media_type a) \<and>
                    (\<exists>allowed \<in> ALLOWED_MIME_TYPES. prefix allowed (media_type a)) \<and>
                    media_type a \<noteq> ''application/octet-stream''" by simp
  qed
qed

theorem process_attachments_media_type_allowed_witness:
  "fst (process_attachments demo_env [\<lparr>name = ''notes.txt''\<rparr>]) =
     Inr [\<lparr>type = ''base64'', media_type = ''text/plain'', data = ''TWFuIQ==''\<rparr>] \<and>
   list_all2 (\<lambda>f a. guess_type demo_env (name f) = Some (media_type a) \<and>
                    (\<exists>allowed \<in> ALLOWED_MIME_TYPES. prefix allowed (media_type a)) \<and>
                    media_type a \<noteq> ''application/octet-stream'')
             [\<lparr>name = ''notes.txt''\<rparr>]
             [\<lparr>type = ''base64'', media_type = ''text/plain'', data = ''TWFuIQ==''\<rparr>]"
proof -
  have h: "fst (process_attachments demo_env [\<lparr>name = ''notes.txt''\<rparr>]) =
     Inr [\<lparr>type = ''base64'', media_type = ''text/plain'', data = ''TWFuIQ==''\<rparr>]"
    by (simp add: demo_notes)
  from process_attachments_media_type_allowed [OF h] h show ?thesis by blast
qed

text \<open>
  C6: when every file is under the size threshold, has a resolved MIME type with a prefix
  in the allow-set, and can be read, validation succeeds for each of them and
  \<open>process_attachments\<close> returns one base64 attachment per file, in order, whose data
  decodes back to exactly the bytes of the file.
\<close>

theorem process_attachments_roundtrip:
  assumes "\<forall>f \<in> set files. \<exists>n m bytes.
             getsize env (name f) = Inr n \<and> n < MAX_FILE_SIZE_MB * 1024 * 1024 \<and>
             guess_type env (name f) = Some m \<and>
             (\<exists>allowed \<in> ALLOWED_MIME_TYPES. prefix allowed m) \<and>
             read_file env (name f) = Inr bytes"
  shows "(\<forall>f \<in> set files. fst (validate_file env (name f)) = Inr ()) \<and>
         (\<exists>atts. fst (process_attachments env files) = Inr atts \<and>
            list_all2 (\<lambda>f a. \<exists>bytes. read_file env (name f) = Inr bytes \<and>
                                     type a = ''base64'' \<and>
                                     b64decode (data a) = Some bytes)
                      files atts)"
proof -
  have good: "\<exists>bytes. read_file env (name f) = Inr bytes \<and>
                fst (validate_file env (name f)) = Inr () \<and>
                (\<exists>m. fst (process_file env f) =
                   Inr \<lparr>type = ''base64'', media_type = m, data = b64encode bytes\<rparr>)"
    if "f \<in> set files" for f
  proof -
    from assms that obtain n m bytes where h:
      "getsize env (name f) = Inr n" "n < MAX_FILE_SIZE_MB * 1024 * 1024"
      "guess_type env (name f) = Some m"
      "\<exists>allowed \<in> ALLOWED_MIME_TYPES. prefix allowed m"
      "read_file env (name f) = Inr bytes"
      by blast
    from h(2) have le: "n \<le> MAX_FILE_SIZE_MB * 1024 * 1024" by simp
    from validate_file_passes [OF h(1) le h(3) h(4)]
      process_file_passes [OF h(1) le h(3) h(4) h(5)] h(5)
    show ?thesis by auto
  qed
  then have "\<forall>f \<in> set files. \<exists>a. fst (process_file env f) = Inr a" by blast
  from loop_all_pass [OF this, of "[]" "[]"] obtain atts t where
    run: "process_attachments env files = (Inr atts, t)"
    by (auto simp: process_attachments_def)
  then have "fst (process_attachments env files) = Inr atts" by simp
  then have each: "list_all2 (\<lambda>f a. fst (process_file env f) = Inr a) files atts"
    by (rule process_attachments_succeeds)
  have "list_all2 (\<lambda>f a. \<exists>bytes. read_file env (name f) = Inr bytes \<and>
                                     type a = ''base64'' \<and>
                                     b64decode (data a) = Some bytes) files atts"
    unfolding list_all2_conv_all_nth
  proof (intro conjI allI impI)
    show "length files = length atts" using each by (rule list_all2_lengthD)
  next
    fix i assume i: "i < length files"
    then have mem: "files ! i \<in> set files" by simp
    from each i have "fst (process_file env (files ! i)) = Inr (atts ! i)"
      by (simp add: list_all2_conv_all_nth)
    with good [OF mem] show "\<exists>bytes. read_file env (name (files ! i)) = Inr bytes \<and>
                                     type (atts ! i) = ''base64'' \<and>
                                     b64decode (data (atts ! i)) = Some bytes"
      by (auto simp: b64_roundtrip)
  qed
  with good run show ?thesis by auto
qed

theorem process_attachments_roundtrip_witness:
  "getsize demo_env ''notes.txt'' = Inr 4 \<and> 4 < MAX_FILE_SIZE_MB * 1024 * 1024 \<and>
   guess_type demo_env ''notes.txt'' = Some ''text/plain'' \<and>
   prefix ''text/'' ''text/plain'' \<and> ''text/'' \<in> ALLOWED_MIME_TYPES \<and>
   read_file demo_env ''notes.txt'' = Inr [0x4d, 0x61, 0x6e, 0x21] \<and>
   fst (validate_file demo_env ''notes.txt'') = Inr () \<and>
   (\<exists>atts. fst (process_attachments demo_env [\<lparr>name = ''notes.txt''\<rparr>]) = Inr atts \<and>
      list_all2 (\<lambda>f a. \<exists>bytes. read_file demo_env (name f) = Inr bytes \<and>
                               type a = ''base64'' \<and>
                               b64decode (data a) = Some bytes)
                [\<lparr>name = ''notes.txt''\<rparr>] atts)"
proof -
  have sz: "getsize demo_env ''notes.txt'' = Inr 4" by (simp add: demo_env_def)
  have lt: "4 < MAX_FILE_SIZE_MB * 1024 * 1024" by (simp add: MAX_FILE_SIZE_MB_def)
  have ty: "guess_type demo_env ''notes.txt'' = Some ''text/plain''"
    by (simp add: demo_env_def)
  have pr: "prefix ''text/'' ''text/plain''" by simp
  have al: "''text/'' \<in> ALLOWED_MIME_TYPES" by (simp add: ALLOWED_MIME_TYPES_def)
  have rd: "read_file demo_env ''notes.txt'' = Inr [0x4d, 0x61, 0x6e, 0x21]"
    by (simp add: demo_env_def)
  have h: "\<forall>f \<in> set [\<lparr>name = ''notes.txt''\<rparr>]. \<exists>n m bytes.
     getsize demo_env (name f) = Inr n \<and> n < MAX_FILE_SIZE_MB * 1024 * 1024 \<and>
     guess_type demo_env (name f) = Some m \<and>
     (\<exists>allowed \<in> ALLOWED_MIME_TYPES. prefix allowed m) \<and>
     read_file demo_env (name f) = Inr bytes"
    by (simp add: demo_env_def MAX_FILE_SIZE_MB_def ALLOWED_MIME_TYPES_def)
  from process_attachments_roundtrip [OF h] have
    "fst (validate_file demo_env ''notes.txt'') = Inr ()"
    "\<exists>atts. fst (process_attachments demo_env [\<lparr>name = ''notes.txt''\<rparr>]) = Inr atts \<and>
      list_all2 (\<lambda>f a. \<exists>bytes. read_file demo_env (name f) = Inr bytes \<and>
                               type a = ''base64'' \<and>
                               b64decode (data a) = Some bytes)
                [\<lparr>name = ''notes.txt''\<rparr>] atts"
    by simp_all
  with sz lt ty pr al rd show ?thesis by blast
qed

subsection \<open>The message list\<close>

lemma foldl_history:
  "foldl (\<lambda>msgs (user_msg, bot_msg).
              msgs @
              [\<lparr>role = ''user'', content = user_msg, attachments = None\<rparr>,
               \<lparr>role = ''assistant'', content = bot_msg, attachments = None\<rparr>])
         start history =
   start @ concat (map (\<lambda>(user_msg, bot_msg).
              [\<lparr>role = ''user'', content = user_msg, attachments = None\<rparr>,
               \<lparr>role = ''assistant'', content = bot_msg, attachments = None\<rparr>]) history)"
  by (induction history arbitrary: start) (auto split: prod.splits)

lemma build_messages_eq:
  "build_messages msg history atts =
   \<lparr>role = ''user'', content = msg, attachments = Some atts\<rparr> #
   concat (map (\<lambda>(user_msg, bot_msg).
              [\<lparr>role = ''user'', content = user_msg, attachments = None\<rparr>,
               \<lparr>role = ''assistant'', content = bot_msg, attachments = None\<rparr>]) history)"
  by (simp add: build_messages_def foldl_history)

lemma except_clauses_GrError:
  "except_clauses env (GrError s) = GrError (''Unexpected error: '' @ gr_error_str env s)"
  by (simp add: except_clauses_def)

text \<open>
  C8: with a credential, a client and the attachments encoded, the one request sent carries
  the message list that starts with the new user message (text and attachments) and goes on
  with a user message and an assistant message for each turn of the history, oldest first.
\<close>

theorem chat_with_claude_message_order:
  assumes "getenv env ''ANTHROPIC_API_KEY'' = Some key" and "key \<noteq> []"
    and "Anthropic env key = Inr cl"
    and "process_attachments env files = (Inr atts, t)"
  shows "snd (chat_with_claude env msg history files) =
           [Getenv ''ANTHROPIC_API_KEY'', NewClient key] @ t @
           [MessagesCreate cl
              \<lparr>model = MODEL_NAME, max_tokens = MAX_TOKENS, temperature = 0,
               messages =
                 \<lparr>role = ''user'', content = msg, attachments = Some atts\<rparr> #
                 concat (map (\<lambda>(user_msg, bot_msg).
                    [\<lparr>role = ''user'', content = user_msg, attachments = None\<rparr>,
                     \<lparr>role = ''assistant'', content = bot_msg, attachments = None\<rparr>])
                   history),
               timeout = 30\<rparr>]"
  using assms
  by (simp add: chat_with_claude_def Let_def build_messages_eq split: sum.splits list.splits)

theorem chat_with_claude_message_order_witness:
  "getenv demo_env ''ANTHROPIC_API_KEY'' = Some ''sk-test'' \<and> ''sk-test'' \<noteq> [] \<and>
   Anthropic demo_env ''sk-test'' = Inr (Client ''sk-test'') \<and>
   process_attachments demo_env [] = (Inr [], []) \<and>
   snd (chat_with_claude demo_env ''Hello'' [(''A'', ''R''), (''B'', ''S'')] []) =
     [Getenv ''ANTHROPIC_API_KEY'', NewClient ''sk-test'',
      MessagesCreate (Client ''sk-test'')
        \<lparr>model = MODEL_NAME, max_tokens = MAX_TOKENS, temperature = 0,
         messages =
           [\<lparr>role = ''user'', content = ''Hello'', attachments = Some []\<rparr>,
            \<lparr>role = ''user'', content = ''A'', attachments = None\<rparr>,
            \<lparr>role = ''assistant'', content = ''R'', attachments = None\<rparr>,
            \<lparr>role = ''user'', content = ''B'', attachments = None\<rparr>,
            \<lparr>role = ''assistant'', content = ''S'', attachments = None\<rparr>],
         timeout = 30\<rparr>]"
proof -
  have k: "getenv demo_env ''ANTHROPIC_API_KEY'' = Some ''sk-test''"
    by (simp add: demo_env_def)
  have ne: "''sk-test'' \<noteq> []" by simp
  have c: "Anthropic demo_env ''sk-test'' = Inr (Client ''sk-test'')"
    by (simp add: demo_env_def)
  have p: "process_attachments demo_env [] = (Inr [], [])"
    by (simp add: process_attachments_def)
  show ?thesis
    using k c p chat_with_claude_message_order [OF k ne c p, of "''Hello''" "[(''A'', ''R''), (''B'', ''S'')]"]
    by simp
qed

text \<open>
  C1: the message list has the pairs of the history first and the new user message, the
  only one with attachments, last. On the message \<open>B\<close> with the history of one turn
  \<open>(A, R)\<close> the request sent lists the new message first and ends with the assistant
  message \<open>R\<close>.
\<close>

theorem chat_with_claude_new_message_leads:
  "snd (chat_with_claude demo_env ''B'' [(''A'', ''R'')] []) =
     [Getenv ''ANTHROPIC_API_KEY'', NewClient ''sk-test'',
      MessagesCreate (Client ''sk-test'')
        \<lparr>model = MODEL_NAME, max_tokens = MAX_TOKENS, temperature = 0,
         messages =
           [\<lparr>role = ''user'', content = ''B'', attachments = Some []\<rparr>,
            \<lparr>role = ''user'', content = ''A'', attachments = None\<rparr>,
            \<lparr>role = ''assistant'', content = ''R'', attachments = None\<rparr>],
         timeout = 30\<rparr>]"
  by (simp add: chat_with_claude_def Let_def build_messages_def demo_env_def
      process_attachments_def)

subsection \<open>A file that fails validation\<close>

text \<open>
  When \<open>bad\<close> is the first file that fails (those before it are processed successfully,
  \<open>bad\<close> fails validation with \<open>e\<close>), the calls made are those for the files before
  \<open>bad\<close>, in input order, then those of the validation of \<open>bad\<close>, and nothing for the
  files after it; no request is sent. The \<open>gr.Error\<close> with the text \<open>File error: ...\<close>
  that \<open>process_attachments\<close> raises is raised inside the \<open>try\<close> block of
  \<open>chat_with_claude\<close>, so the last clause, \<open>except Exception\<close>, catches it and raises
  \<open>Unexpected error: ...\<close> in its place.
\<close>

lemma chat_with_claude_first_bad_file:
  assumes key: "getenv env ''ANTHROPIC_API_KEY'' = Some key" and ne: "key \<noteq> []"
    and cl: "Anthropic env key = Inr cl"
    and pre: "\<forall>f \<in> set pre. \<exists>a. fst (process_file env f) = Inr a"
    and bad: "fst (validate_file env (name bad)) = Inl e"
  shows "chat_with_claude env msg history (pre @ bad # post) =
           (Inl (GrError (''Unexpected error: '' @
                          gr_error_str env (''File error: '' @ exn_str env e))),
            [Getenv ''ANTHROPIC_API_KEY'', NewClient key] @
            concat (map (\<lambda>f. snd (process_file env f)) pre) @
            snd (validate_file env (name bad))) \<and>
         (\<forall>c rq. MessagesCreate c rq \<notin>
                   set (snd (chat_with_claude env msg history (pre @ bad # post))))"
proof -
  have run: "chat_with_claude env msg history (pre @ bad # post) =
           (Inl (GrError (''Unexpected error: '' @
                          gr_error_str env (''File error: '' @ exn_str env e))),
            [Getenv ''ANTHROPIC_API_KEY'', NewClient key] @
            concat (map (\<lambda>f. snd (process_file env f)) pre) @
            snd (validate_file env (name bad)))"
    using key ne cl
    by (simp add: chat_with_claude_def process_attachments_stops [OF pre bad]
        except_clauses_GrError)
  have "MessagesCreate c rq \<notin>
          set (snd (chat_with_claude env msg history (pre @ bad # post)))" for c rq
    using validate_file_no_create [of c rq env "name bad"] process_file_no_create [of c rq env]
    by (auto simp: run)
  with run show ?thesis by blast
qed

lemma py_repr_file_error:
  "py_repr ''File error: File size exceeds 10MB limit'' =
     [CHR 0x27] @ ''File error: File size exceeds 10MB limit'' @ [CHR 0x27]"
  by (simp add: py_repr_def repr_char_def Let_def)

text \<open>
  C5: when a file of the list fails validation, the files are processed in input order,
  none after the first failing one is processed, the turn fails with a classified error
  and no request is sent. On \<open>notes.txt\<close>, \<open>big.txt\<close>, \<open>notes.txt\<close> the calls stop at the
  size of \<open>big.txt\<close> and no request is sent, and \<open>process_attachments\<close> raises the file
  error; but what leaves \<open>chat_with_claude\<close> is the error of the catch-all clause,
  \<open>Unexpected error: \<close> followed by the rendering of the file error, not the file error.
\<close>

theorem chat_with_claude_file_error_unclassified:
  "fst (process_attachments demo_env
          [\<lparr>name = ''notes.txt''\<rparr>, \<lparr>name = ''big.txt''\<rparr>, \<lparr>name = ''notes.txt''\<rparr>]) =
     Inl (GrError ''File error: File size exceeds 10MB limit'') \<and>
   chat_with_claude demo_env ''Hello'' []
     [\<lparr>name = ''notes.txt''\<rparr>, \<lparr>name = ''big.txt''\<rparr>, \<lparr>name = ''notes.txt''\<rparr>] =
     (Inl (GrError (''Unexpected error: '' @ [CHR 0x27] @
                    ''File error: File size exceeds 10MB limit'' @ [CHR 0x27])),
      [Getenv ''ANTHROPIC_API_KEY'', NewClient ''sk-test'',
       Getsize ''notes.txt'', GuessType ''notes.txt'', GuessType ''notes.txt'',
       OpenRead ''notes.txt'', Getsize ''big.txt''])"
proof -
  have k: "getenv demo_env ''ANTHROPIC_API_KEY'' = Some ''sk-test''"
    by (simp add: demo_env_def)
  have ne: "''sk-test'' \<noteq> []" by simp
  have c: "Anthropic demo_env ''sk-test'' = Inr (Client ''sk-test'')"
    by (simp add: demo_env_def)
  have p: "\<forall>f \<in> set [\<lparr>name = ''notes.txt''\<rparr>]. \<exists>a. fst (process_file demo_env f) = Inr a"
    by (simp add: demo_pass_notes)
  have b: "fst (validate_file demo_env (name \<lparr>name = ''big.txt''\<rparr>)) =
     Inl (ValueError ''File size exceeds 10MB limit'')"
    by (simp add: demo_big)
  have g: "gr_error_str demo_env = py_repr" by (simp add: demo_env_def)
  have files: "fst (process_attachments demo_env
          ([\<lparr>name = ''notes.txt''\<rparr>] @ \<lparr>name = ''big.txt''\<rparr> # [\<lparr>name = ''notes.txt''\<rparr>])) =
     Inl (GrError ''File error: File size exceeds 10MB limit'')"
    using process_attachments_stops [OF p b, of "[\<lparr>name = ''notes.txt''\<rparr>]"] by simp
  have run: "chat_with_claude demo_env ''Hello'' []
     ([\<lparr>name = ''notes.txt''\<rparr>] @ \<lparr>name = ''big.txt''\<rparr> # [\<lparr>name = ''notes.txt''\<rparr>]) =
     (Inl (GrError (''Unexpected error: '' @ [CHR 0x27] @
                    ''File error: File size exceeds 10MB limit'' @ [CHR 0x27])),
      [Getenv ''ANTHROPIC_API_KEY'', NewClient ''sk-test'',
       Getsize ''notes.txt'', GuessType ''notes.txt'', GuessType ''notes.txt'',
       OpenRead ''notes.txt'', Getsize ''big.txt''])"
    using chat_with_claude_first_bad_file [OF k ne c p b, of "''Hello''" "[]"
            "[\<lparr>name = ''notes.txt''\<rparr>]"] py_repr_file_error
    by (simp add: demo_trace_notes demo_big g)
  from files run show ?thesis by simp
qed

subsection \<open>The turn handler\<close>

lemma chat_with_claude_reply:
  "fst (chat_with_claude env msg history files) = Inr r \<Longrightarrow>
   \<exists>cl rq blocks. messages_create env cl rq = Inr (r # blocks)"
  by (auto simp: chat_with_claude_def Let_def
      split: option.splits if_splits sum.splits prod.splits list.splits)

text \<open>
  C2: \<open>handle_chat\<close> always returns. Its result is the input history, unchanged, with
  exactly one turn appended, whose assistant side is the reply of \<open>chat_with_claude\<close>
  or the string \<open>Error: \<close> followed by the text of the exception it raised; the file
  list is cleared.
\<close>

theorem handle_chat_always_returns:
  "\<exists>text. fst (handle_chat env msg history files) = Inr (history @ [(msg, text)], []) \<and>
     (fst (chat_with_claude env msg history files) = Inr text \<or>
      (\<exists>e. fst (chat_with_claude env msg history files) = Inl e \<and>
           text = ''Error: '' @ exn_str env e))"
  by (cases "chat_with_claude env msg history files")
     (auto simp: handle_chat_def split: sum.splits)

theorem handle_chat_always_returns_witness:
  "\<exists>text. fst (handle_chat demo_env ''Hello'' [(''A'', ''R'')] [\<lparr>name = ''README''\<rparr>]) =
            Inr ([(''A'', ''R'')] @ [(''Hello'', text)], []) \<and>
     (fst (chat_with_claude demo_env ''Hello'' [(''A'', ''R'')] [\<lparr>name = ''README''\<rparr>]) = Inr text \<or>
      (\<exists>e. fst (chat_with_claude demo_env ''Hello'' [(''A'', ''R'')] [\<lparr>name = ''README''\<rparr>]) = Inl e \<and>
           text = ''Error: '' @ exn_str demo_env e))"
  by (rule handle_chat_always_returns)

text \<open>
  Without a credential \<open>handle_chat\<close> reads the environment and does nothing else (no
  client, no file, no request); the turn it records has the text \<open>Error: \<close> followed by
  \<open>str\<close> of the \<open>gr.Error\<close> built from \<open>Configuration error: API key missing\<close>.
\<close>

lemma handle_chat_no_credential:
  assumes "getenv env ''ANTHROPIC_API_KEY'' = None"
  shows "handle_chat env msg history files =
           (Inr (history @
                 [(msg, ''Error: '' @
                        gr_error_str env ''Configuration error: API key missing'')], []),
            [Getenv ''ANTHROPIC_API_KEY''])"
  using assms by (simp add: handle_chat_def chat_with_claude_def)

lemma py_repr_configuration_error:
  "py_repr ''Configuration error: API key missing'' =
     [CHR 0x27] @ ''Configuration error: API key missing'' @ [CHR 0x27]"
  by (simp add: py_repr_def repr_char_def Let_def)

text \<open>
  C7: when the credential is absent, the configuration error is surfaced before any
  network attempt and the new turn's assistant text begins \<open>Error: Configuration error\<close>.
  No call but the read of the environment is made; but \<open>str\<close> of a \<open>gr.Error\<close> is the
  \<open>repr\<close> of its message, so the text recorded has a quote after \<open>Error: \<close> and does not
  begin \<open>Error: Configuration error\<close>.
\<close>

theorem handle_chat_missing_credential_text:
  "handle_chat (demo_env\<lparr>getenv := \<lambda>v. None\<rparr>) ''Hello'' [(''A'', ''R'')]
     [\<lparr>name = ''notes.txt''\<rparr>] =
     (Inr ([(''A'', ''R''),
            (''Hello'', ''Error: '' @ [CHR 0x27] @
                        ''Configuration error: API key missing'' @ [CHR 0x27])], []),
      [Getenv ''ANTHROPIC_API_KEY'']) \<and>
   \<not> prefix ''Error: Configuration error''
       (''Error: '' @ [CHR 0x27] @ ''Configuration error: API key missing'' @ [CHR 0x27])"
proof -
  have a: "getenv (demo_env\<lparr>getenv := \<lambda>v. None\<rparr>) ''ANTHROPIC_API_KEY'' = None" by simp
  have g: "gr_error_str (demo_env\<lparr>getenv := \<lambda>v. None\<rparr>) = py_repr"
    by (simp add: demo_env_def)
  show ?thesis
    using handle_chat_no_credential [OF a, of "''Hello''" "[(''A'', ''R'')]"
            "[\<lparr>name = ''notes.txt''\<rparr>]"] py_repr_configuration_error
    by (simp add: g)
qed

text \<open>
  C9, as stated: the assistant text of every recorded turn is non-empty. A remote response
  whose first content block is the empty text is recorded as it is.
\<close>

theorem handle_chat_records_empty_reply:
  "fst (handle_chat (demo_env\<lparr>messages_create := \<lambda>cl rq. Inr ['''']\<rparr>) ''Hello'' [] []) =
     Inr ([(''Hello'', '''')], [])"
  by (simp add: handle_chat_def chat_with_claude_def Let_def demo_env_def
      process_attachments_def)

text \<open>
  C9, amended: the assistant text of the recorded turn is non-empty whenever the remote
  never answers with an empty first content block; in particular every recorded failure
  has a non-empty text.
\<close>

theorem handle_chat_assistant_text_nonempty:
  assumes "\<forall>cl rq blocks. messages_create env cl rq \<noteq> Inr ([] # blocks)"
  shows "\<exists>text. fst (handle_chat env msg history files) = Inr (history @ [(msg, text)], []) \<and>
           text \<noteq> []"
proof (cases "chat_with_claude env msg history files")
  case (Pair res t)
  show ?thesis
  proof (cases res)
    case (Inl e)
    with Pair show ?thesis by (simp add: handle_chat_def)
  next
    case (Inr r)
    with Pair have "fst (chat_with_claude env msg history files) = Inr r" by simp
    from chat_with_claude_reply [OF this] assms have "r \<noteq> []" by auto
    with Pair Inr show ?thesis by (simp add: handle_chat_def)
  qed
qed

theorem handle_chat_assistant_text_nonempty_witness:
  "(\<forall>cl rq blocks. messages_create demo_env cl rq \<noteq> Inr ([] # blocks)) \<and>
   (\<exists>text. fst (handle_chat demo_env ''Hello'' [] []) = Inr ([] @ [(''Hello'', text)], []) \<and>
           text \<noteq> [])"
proof -
  have h: "\<forall>cl rq blocks. messages_create demo_env cl rq \<noteq> Inr ([] # blocks)"
    by (simp add: demo_env_def)
  from handle_chat_assistant_text_nonempty [OF h, of "''Hello''" "[]" "[]"] h show ?thesis by blast
qed

end
